theory Spec2Isabelle
  imports Complex_Main "HOL-Library.Sublist"
begin

section \<open>Python values\<close>

text \<open>
  A Python \<open>str\<close> is a sequence of Unicode code points. The log lines of the agent start
  with code points far above 255 and \<open>create_pdf_report\<close> re-encodes text as Latin-1, so
  a string is modelled as the list of its code points; \<open>lit\<close> embeds an ASCII literal.
\<close>

type_synonym pystr = "nat list"

definition lit :: "string \<Rightarrow> pystr" where
  "lit s = map of_char s"

text \<open>
  What \<open>json.loads\<close> returns: \<open>None\<close>, \<open>bool\<close>, a number, \<open>str\<close>, \<open>list\<close> or \<open>dict\<close>.
  Numbers (\<open>int\<close> and \<open>float\<close>) are exact rationals here: rounding, overflow, infinities
  and NaN of binary floating point are outside the model. A \<open>dict\<close> is the list of its items in
  insertion order, keys distinct.
\<close>

datatype json =
    JNull
  | JBool bool
  | JNum rat
  | JStr pystr
  | JArr "json list"
  | JObj "(pystr \<times> json) list"

text \<open>
  The errors the interpreter itself raises on the values above. Their \<open>str()\<close> is
  CPython's and is a parameter of the model (\<open>str_error\<close> below).
\<close>

datatype rt_error =
    AttributeError json pystr \<comment> \<open>the object and the attribute it lacks\<close>
  | TypeError_not_iterable json
  | TypeError_operand json
  | TypeError_loads
  | ValueError_unpack nat nat \<comment> \<open>values expected, values got\<close>

text \<open>
  An exception object: \<open>Exception m\<close> is one whose \<open>str()\<close> is \<open>m\<close>, raised by the code
  with that message or by a collaborator; every one of them is caught by
  \<open>except Exception\<close>.
\<close>

datatype exn = Exception pystr | Runtime rt_error

fun str_exn :: "(rt_error \<Rightarrow> pystr) \<Rightarrow> exn \<Rightarrow> pystr" where
  "str_exn str_rt (Exception m) = m"
| "str_exn str_rt (Runtime e) = str_rt e"

text \<open>
  Truth value of an object (\<open>if x:\<close>), iteration (\<open>for item in x\<close>, also behind tuple
  unpacking), \<open>x.get(key, default)\<close> and the numeric value an arithmetic operator sees
  (\<open>bool\<close> is a subclass of \<open>int\<close>).
\<close>

fun truthy :: "json \<Rightarrow> bool" where
  "truthy JNull = False"
| "truthy (JBool b) = b"
| "truthy (JNum r) = (r \<noteq> 0)"
| "truthy (JStr s) = (s \<noteq> [])"
| "truthy (JArr xs) = (xs \<noteq> [])"
| "truthy (JObj kvs) = (kvs \<noteq> [])"

fun and_then :: "exn + 'a \<Rightarrow> ('a \<Rightarrow> exn + 'b) \<Rightarrow> exn + 'b" where
  "and_then (Inl e) f = Inl e"
| "and_then (Inr x) f = f x"

fun py_iter :: "json \<Rightarrow> exn + json list" where
  "py_iter (JArr xs) = Inr xs"
| "py_iter (JStr s) = Inr (map (\<lambda>c. JStr [c]) s)"
| "py_iter (JObj kvs) = Inr (map (\<lambda>kv. JStr (fst kv)) kvs)"
| "py_iter v = Inl (Runtime (TypeError_not_iterable v))"

definition unpack :: "nat \<Rightarrow> json \<Rightarrow> exn + json list" where
  "unpack n v =
     and_then (py_iter v) (\<lambda>xs.
       if length xs = n then Inr xs else Inl (Runtime (ValueError_unpack n (length xs))))"

fun py_get :: "json \<Rightarrow> pystr \<Rightarrow> json \<Rightarrow> exn + json" where
  "py_get (JObj kvs) k d = Inr (case map_of kvs k of Some v \<Rightarrow> v | None \<Rightarrow> d)"
| "py_get v k d = Inl (Runtime (AttributeError v (lit ''get'')))"

fun num_of :: "json \<Rightarrow> exn + rat" where
  "num_of (JNum r) = Inr r"
| "num_of (JBool b) = Inr (if b then 1 else 0)"
| "num_of v = Inl (Runtime (TypeError_operand v))"

text \<open>\<open>str(n)\<close> for a non-negative \<open>int\<close>.\<close>

function str_nat :: "nat \<Rightarrow> pystr" where
  "str_nat n = (if n < 10 then [48 + n] else str_nat (n div 10) @ [48 + n mod 10])"
  by pat_completeness auto
termination
  by (relation "measure id") auto

declare str_nat.simps [simp del]

text \<open>\<open>s.encode('latin-1', 'replace').decode('latin-1')\<close>: a question mark for what Latin-1 lacks.\<close>

definition latin1_replace :: "pystr \<Rightarrow> pystr" where
  "latin1_replace s = map (\<lambda>c. if c < 256 then c else 63) s"

text \<open>\<open>os.path.join\<close> of a directory and a relative name, and \<open>os.path.basename\<close> (POSIX).\<close>

definition path_join :: "pystr \<Rightarrow> pystr \<Rightarrow> pystr" where
  "path_join a b = (if a = [] \<or> last a = 47 then a @ b else a @ [47] @ b)"

fun basename :: "pystr \<Rightarrow> pystr" where
  "basename [] = []"
| "basename (c # cs) = (if 47 \<in> set cs then basename cs else if c = 47 then cs else c # cs)"

section \<open>Collaborators\<close>

type_synonym bytes = "nat list"

text \<open>
  What \<open>FirecrawlApp.scrape\<close> returned, as far as \<open>get_screenshot\<close> looks at it: a dict
  with its \<open>get('screenshot')\<close>, an object with a \<open>screenshot\<close> attribute, or neither.
\<close>

datatype scrape_result =
    Scrape_dict "pystr option"
  | Scrape_object "pystr option"
  | Scrape_other

record response =
  status_code :: nat
  content :: bytes

text \<open>
  What \<open>ImageDraw\<close> is asked to paint, with the arguments of the call: coordinates, fill,
  outline and width.
\<close>

datatype draw_cmd =
    Line "rat list" pystr nat
  | Ellipse "rat list" pystr
  | Rectangle "rat list" pystr pystr nat
  | Text "rat \<times> rat" pystr pystr

text \<open>
  A PIL image object: its size (width, height), its mode, the raster it was decoded to and
  what has been painted over it so far. Painting outside the canvas is clipped by the
  library and is no error.
\<close>

record image =
  img_size :: "nat \<times> nat"
  mode :: pystr
  pixels :: "nat list"
  drawn :: "draw_cmd list"

text \<open>The calls on \<open>FPDF\<close>, in the order \<open>create_pdf_report\<close> makes them.\<close>

datatype pdf_op =
    Add_page
  | Set_font pystr pystr nat
  | Set_text_color nat nat nat
  | Cell nat nat pystr bool pystr \<comment> \<open>w, h, txt, ln, align\<close>
  | Multi_cell nat nat pystr
  | Ln nat
  | Put_image bytes nat nat nat \<comment> \<open>the file's bytes, x, y, w\<close>

text \<open>
  Everything outside the three source files: the environment, the two remote services,
  the libraries and the clock. A call that can raise returns the exception on the left;
  a constructor or a write that can raise returns it as \<open>Some\<close>.
\<close>

record env =
  getenv :: "pystr \<Rightarrow> pystr option"
  FirecrawlApp :: "pystr \<Rightarrow> exn option"
  genai_Client :: "pystr \<Rightarrow> exn option"
  scrape :: "pystr \<Rightarrow> exn + scrape_result"
  requests_get :: "pystr \<Rightarrow> exn + response"
  Image_open :: "bytes \<Rightarrow> exn + image"
  generate_content :: "image \<Rightarrow> exn + pystr option"
  json_loads :: "pystr \<Rightarrow> exn + json"
  str_upper :: "pystr \<Rightarrow> pystr"
  textbbox :: "rat \<times> rat \<Rightarrow> pystr \<Rightarrow> rat \<times> rat \<times> rat \<times> rat"
  save_png :: "image \<Rightarrow> bytes"
  time_time :: nat
  gettempdir :: pystr
  str_value :: "json \<Rightarrow> pystr" \<comment> \<open>\<open>str()\<close> of a value that is no \<open>str\<close>\<close>
  write_file :: "pystr \<Rightarrow> bytes \<Rightarrow> exn option"
  pdf_image :: "pystr \<Rightarrow> bytes \<Rightarrow> exn option"
  pdf_output :: "pdf_op list \<Rightarrow> pystr \<Rightarrow> exn option"
  str_error :: "rt_error \<Rightarrow> pystr"

section \<open>\<open>agent.py\<close>\<close>

subsection \<open>The constructor\<close>

record agent =
  firecrawl_key :: pystr
  google_key :: pystr

definition missing_keys_msg :: pystr where
  "missing_keys_msg =
     0x274C # lit '' Error: Missing API Keys. Please set FIRECRAWL_API_KEY and GOOGLE_API_KEY in Vercel Environment Variables.''"

definition init_error_msg :: "pystr \<Rightarrow> pystr" where
  "init_error_msg s = 0x274C # lit '' Error initializing AI clients: '' @ s"

text \<open>\<open>ProductionAgent.__init__\<close>: both \<open>raise ValueError(error_msg)\<close> are the left results.\<close>

definition ProductionAgent_init :: "env \<Rightarrow> exn + agent" where
  "ProductionAgent_init E =
     (case (getenv E (lit ''FIRECRAWL_API_KEY''), getenv E (lit ''GOOGLE_API_KEY'')) of
        (Some fk, Some gk) \<Rightarrow>
          if fk = [] \<or> gk = [] then Inl (Exception missing_keys_msg)
          else (case FirecrawlApp E fk of
                  Some e \<Rightarrow> Inl (Exception (init_error_msg (str_exn (str_error E) e)))
                | None \<Rightarrow>
                    (case genai_Client E gk of
                       Some e \<Rightarrow> Inl (Exception (init_error_msg (str_exn (str_error E) e)))
                     | None \<Rightarrow> Inr \<lparr>firecrawl_key = fk, google_key = gk\<rparr>))
      | _ \<Rightarrow> Inl (Exception missing_keys_msg))"

subsection \<open>Log lines and the trace of a run\<close>

definition starting_msg :: "pystr \<Rightarrow> pystr" where
  "starting_msg url = 0x1F680 # lit '' Starting analysis for: '' @ url"

definition capturing_msg :: "pystr \<Rightarrow> pystr" where
  "capturing_msg url = 0x1F4F8 # lit '' Capturing screenshot of '' @ url @ lit ''...''"

definition url_obtained_msg :: "pystr \<Rightarrow> pystr" where
  "url_obtained_msg u = 0x1F517 # lit '' Screenshot URL obtained: '' @ u"

definition firecrawl_error_msg :: "pystr \<Rightarrow> pystr" where
  "firecrawl_error_msg s = 0x274C # lit '' Firecrawl Error: '' @ s"

definition failed_capture_msg :: pystr where
  "failed_capture_msg = 0x274C # lit '' Failed to capture screenshot.''"

definition analyzing_msg :: pystr where
  "analyzing_msg = 0x1F9E0 # lit '' Analyzing image with Gemini Vision...''"

definition drawing_msg :: pystr where
  "drawing_msg = 0x1F3A8 # lit '' Drawing annotations on image...''"

definition gemini_error_msg :: "pystr \<Rightarrow> pystr" where
  "gemini_error_msg s = 0x274C # lit '' Gemini/Annotation Error: '' @ s"

definition generating_msg :: pystr where
  "generating_msg = 0x1F4C4 # lit '' Generating PDF Report...''"

definition report_generated_msg :: "pystr \<Rightarrow> pystr" where
  "report_generated_msg p = 0x2705 # lit '' Report generated: '' @ p"

text \<open>
  A run is observed as the sequence of what it does: \<open>Log m\<close> is \<open>await self.log(m)\<close>,
  \<open>Call c\<close> is the point where the work \<open>c\<close> of a stage starts (capture: the scrape and
  the download; analysis: decoding the image, the model call and the parsing of its
  answer; rendering: the drawing loop and the PNG encoding; assembly: the report).
\<close>

datatype stage = Capture | Analyze | Render | Assemble

datatype call = Scrape | Download | Open_image | Generate | Parse | Draw | Save | Create_pdf

fun stage_of :: "call \<Rightarrow> stage" where
  "stage_of Scrape = Capture"
| "stage_of Download = Capture"
| "stage_of Open_image = Analyze"
| "stage_of Generate = Analyze"
| "stage_of Parse = Analyze"
| "stage_of Draw = Render"
| "stage_of Save = Render"
| "stage_of Create_pdf = Assemble"

datatype trace_item = Log pystr | Call call

fun logs :: "trace_item list \<Rightarrow> pystr list" where
  "logs [] = []"
| "logs (Log m # tr) = m # logs tr"
| "logs (Call c # tr) = logs tr"

subsection \<open>\<open>get_screenshot\<close>\<close>

text \<open>The body of the \<open>try\<close>: what it did, and the bytes or the exception it ended with.\<close>

definition get_screenshot_try :: "env \<Rightarrow> pystr \<Rightarrow> trace_item list \<times> (exn + bytes)" where
  "get_screenshot_try E url =
     (case scrape E url of
        Inl e \<Rightarrow> ([Call Scrape], Inl e)
      | Inr result \<Rightarrow>
          (let screenshot_url =
                 (case result of
                    Scrape_dict v \<Rightarrow> v
                  | Scrape_object v \<Rightarrow> v
                  | Scrape_other \<Rightarrow> None)
           in case screenshot_url of
                None \<Rightarrow>
                  ([Call Scrape], Inl (Exception (lit ''Failed to get screenshot URL from Firecrawl.'')))
              | Some u \<Rightarrow>
                  if u = [] then
                    ([Call Scrape], Inl (Exception (lit ''Failed to get screenshot URL from Firecrawl.'')))
                  else
                    (case requests_get E u of
                       Inl e \<Rightarrow> ([Call Scrape, Log (url_obtained_msg u), Call Download], Inl e)
                     | Inr r \<Rightarrow>
                         if status_code r = 200 then
                           ([Call Scrape, Log (url_obtained_msg u), Call Download], Inr (content r))
                         else
                           ([Call Scrape, Log (url_obtained_msg u), Call Download],
                            Inl (Exception (lit ''Failed to download image. Status: '' @
                                            str_nat (status_code r)))))))"

definition get_screenshot :: "env \<Rightarrow> pystr \<Rightarrow> trace_item list \<times> bytes option" where
  "get_screenshot E url =
     (case get_screenshot_try E url of
        (tr, Inr b) \<Rightarrow> (Log (capturing_msg url) # tr, Some b)
      | (tr, Inl e) \<Rightarrow>
          (Log (capturing_msg url) # tr @ [Log (firecrawl_error_msg (str_exn (str_error E) e))],
           None))"

subsection \<open>\<open>analyze_and_annotate\<close>\<close>

text \<open>\<open>img.convert('RGB')\<close> when the mode is another one: a new image of the same size.\<close>

definition to_rgb :: "image \<Rightarrow> image" where
  "to_rgb img = (if mode img \<noteq> lit ''RGB'' then img\<lparr>mode := lit ''RGB''\<rparr> else img)"

text \<open>
  Lines 195 to 220: the six drawing calls for one finding, from its label box
  \<open>(l_ymin, l_xmin, l_ymax, l_xmax)\<close>, its target \<open>(t_y, t_x)\<close> and its text. A tuple of
  four numbers is true, so the \<open>if bbox:\<close> of line 218 always holds.
\<close>

definition overlay ::
  "env \<Rightarrow> nat \<Rightarrow> nat \<Rightarrow> rat \<times> rat \<times> rat \<times> rat \<Rightarrow> rat \<times> rat \<Rightarrow> pystr \<Rightarrow> draw_cmd list" where
  "overlay E width height label_box target text =
     (case (label_box, target) of ((l_ymin, l_xmin, l_ymax, l_xmax), (t_y, t_x)) \<Rightarrow>
        (let lx = (l_xmin / 1000) * of_nat width;
             ly = (l_ymin / 1000) * of_nat height;
             tx = (t_x / 1000) * of_nat width;
             ty = (t_y / 1000) * of_nat height;
             lcx = ((l_xmin + l_xmax) / 2000) * of_nat width;
             lcy = ((l_ymin + l_ymax) / 2000) * of_nat height;
             r = 10;
             pad = 5
         in case textbbox E (lx, ly) text of (b0, b1, b2, b3) \<Rightarrow>
              [Line [lcx, lcy, tx, ty] (lit ''black'') 6,
               Line [lcx, lcy, tx, ty] (lit ''#FFD700'') 4,
               Ellipse [tx - r - 2, ty - r - 2, tx + r + 2, ty + r + 2] (lit ''black''),
               Ellipse [tx - r, ty - r, tx + r, ty + r] (lit ''#FFD700''),
               Rectangle [b0 - pad, b1 - pad, b2 + pad, b3 + pad] (lit ''#FFD700'') (lit ''black'') 2,
               Text (lx, ly) text (lit ''black'')]))"

definition py_upper :: "env \<Rightarrow> json \<Rightarrow> exn + pystr" where
  "py_upper E v =
     (case v of JStr s \<Rightarrow> Inr (str_upper E s) | _ \<Rightarrow> Inl (Runtime (AttributeError v (lit ''upper''))))"

text \<open>
  The body of the \<open>for item in analysis_data\<close> loop, lines 186 to 220. The numbers are
  taken in the order the source first uses them in arithmetic.
\<close>

definition draw_item :: "env \<Rightarrow> nat \<Rightarrow> nat \<Rightarrow> json \<Rightarrow> exn + draw_cmd list" where
  "draw_item E width height item =
     and_then (py_get item (lit ''label_pos'') JNull) (\<lambda>label_box.
     and_then (py_get item (lit ''target_pos'') JNull) (\<lambda>target.
     and_then (py_get item (lit ''text'') (JStr [])) (\<lambda>t.
     and_then (py_upper E t) (\<lambda>text.
       if truthy label_box \<and> truthy target then
         and_then (unpack 4 label_box) (\<lambda>lb.
         and_then (unpack 2 target) (\<lambda>tg.
         and_then (num_of (lb ! 1)) (\<lambda>l_xmin.
         and_then (num_of (lb ! 0)) (\<lambda>l_ymin.
         and_then (num_of (tg ! 1)) (\<lambda>t_x.
         and_then (num_of (tg ! 0)) (\<lambda>t_y.
         and_then (num_of (lb ! 3)) (\<lambda>l_xmax.
         and_then (num_of (lb ! 2)) (\<lambda>l_ymax.
           Inr (overlay E width height (l_ymin, l_xmin, l_ymax, l_xmax) (t_y, t_x) text)))))))))
       else Inr []))))"

fun draw_loop :: "env \<Rightarrow> nat \<Rightarrow> nat \<Rightarrow> json list \<Rightarrow> exn + draw_cmd list" where
  "draw_loop E width height [] = Inr []"
| "draw_loop E width height (item # items) =
     and_then (draw_item E width height item) (\<lambda>cmds.
     and_then (draw_loop E width height items) (\<lambda>more. Inr (cmds @ more)))"

definition py_json_loads :: "env \<Rightarrow> pystr option \<Rightarrow> exn + json" where
  "py_json_loads E text =
     (case text of None \<Rightarrow> Inl (Runtime TypeError_loads) | Some s \<Rightarrow> json_loads E s)"

text \<open>Lines 169 to 171: the parsed answer and its \<open>annotations\<close>.\<close>

definition read_response :: "env \<Rightarrow> pystr option \<Rightarrow> exn + json \<times> json" where
  "read_response E text =
     and_then (py_json_loads E text) (\<lambda>full_response.
     and_then (py_get full_response (lit ''executive_summary'') (JStr (lit ''No summary provided.'')))
       (\<lambda>executive_summary.
     and_then (py_get full_response (lit ''annotations'') (JArr [])) (\<lambda>analysis_data.
       Inr (full_response, analysis_data))))"

text \<open>The body of the \<open>try\<close> of lines 112 to 227.\<close>

definition annotate_try :: "env \<Rightarrow> bytes \<Rightarrow> trace_item list \<times> (exn + json \<times> bytes)" where
  "annotate_try E image_bytes =
     (case Image_open E image_bytes of
        Inl e \<Rightarrow> ([Call Open_image], Inl e)
      | Inr opened \<Rightarrow>
          (let img = to_rgb opened;
               width = fst (img_size img);
               height = snd (img_size img)
           in case generate_content E img of
                Inl e \<Rightarrow> ([Call Open_image, Call Generate], Inl e)
              | Inr text \<Rightarrow>
                  (case read_response E text of
                     Inl e \<Rightarrow> ([Call Open_image, Call Generate, Call Parse], Inl e)
                   | Inr (full_response, analysis_data) \<Rightarrow>
                       (case and_then (py_iter analysis_data) (draw_loop E width height) of
                          Inl e \<Rightarrow>
                            ([Call Open_image, Call Generate, Call Parse, Log drawing_msg, Call Draw],
                             Inl e)
                        | Inr cmds \<Rightarrow>
                            ([Call Open_image, Call Generate, Call Parse, Log drawing_msg, Call Draw,
                              Call Save],
                             Inr (full_response, save_png E (img\<lparr>drawn := drawn img @ cmds\<rparr>)))))))"

definition analyze_and_annotate :: "env \<Rightarrow> bytes \<Rightarrow> trace_item list \<times> json \<times> bytes" where
  "analyze_and_annotate E image_bytes =
     (case annotate_try E image_bytes of
        (tr, Inr (full_response, annotated_image_bytes)) \<Rightarrow>
          (Log analyzing_msg # tr, full_response, annotated_image_bytes)
      | (tr, Inl e) \<Rightarrow>
          (Log analyzing_msg # tr @ [Log (gemini_error_msg (str_exn (str_error E) e))],
           JObj [], image_bytes))"

subsection \<open>\<open>create_pdf_report\<close>\<close>

definition py_str :: "env \<Rightarrow> json \<Rightarrow> pystr" where
  "py_str E v = (case v of JStr s \<Rightarrow> s | _ \<Rightarrow> str_value E v)"

text \<open>Lines 264 to 287: one finding of the overview.\<close>

definition finding_ops :: "env \<Rightarrow> json \<Rightarrow> exn + pdf_op list" where
  "finding_ops E item =
     and_then (py_get item (lit ''id'') JNull) (\<lambda>uid.
     and_then (py_get item (lit ''title'') (JStr (lit ''Issue''))) (\<lambda>fallback.
     and_then (py_get item (lit ''text'') fallback) (\<lambda>title0.
     and_then (py_get item (lit ''description'') (JStr [])) (\<lambda>desc0.
     and_then (py_get item (lit ''recommendation'') (JStr (lit ''No specific recommendation.'')))
       (\<lambda>rec0.
       (let title = latin1_replace (py_str E title0);
            desc = latin1_replace (py_str E desc0);
            rec = latin1_replace (py_str E rec0)
        in Inr [Set_font (lit ''Arial'') (lit ''B'') 12,
                Set_text_color 200 0 0,
                Cell 10 8 (lit ''#'' @ py_str E uid) False [],
                Set_text_color 0 0 0,
                Cell 0 8 title True [],
                Set_font (lit ''Arial'') [] 11,
                Multi_cell 0 6 (lit ''Problem: '' @ desc),
                Set_font (lit ''Arial'') (lit ''I'') 11,
                Set_text_color 0 100 0,
                Multi_cell 0 6 (lit ''Fix: '' @ rec),
                Set_text_color 0 0 0,
                Ln 5]))))))"

fun findings_loop :: "env \<Rightarrow> json list \<Rightarrow> exn + pdf_op list" where
  "findings_loop E [] = Inr []"
| "findings_loop E (item # items) =
     and_then (finding_ops E item) (\<lambda>ops.
     and_then (findings_loop E items) (\<lambda>more. Inr (ops @ more)))"

definition summary_page :: "pystr \<Rightarrow> pystr \<Rightarrow> pdf_op list" where
  "summary_page url exec_summary =
     [Add_page,
      Set_font (lit ''Arial'') (lit ''B'') 24,
      Cell 0 20 (lit ''Conversion Audit Report'') True (lit ''C''),
      Set_font (lit ''Arial'') (lit ''I'') 12,
      Cell 0 10 (lit ''Analysis for: '' @ url) True (lit ''C''),
      Ln 20,
      Set_font (lit ''Arial'') (lit ''B'') 16,
      Cell 0 10 (lit ''Executive Summary'') True [],
      Ln 5,
      Set_font (lit ''Arial'') [] 12,
      Multi_cell 0 10 exec_summary,
      Ln 20,
      Set_font (lit ''Arial'') (lit ''B'') 14,
      Cell 0 10 (lit ''Key Findings Overview:'') True [],
      Ln 5]"

definition visuals_page :: "pdf_op list" where
  "visuals_page =
     [Add_page,
      Set_font (lit ''Arial'') (lit ''B'') 16,
      Cell 0 10 (lit ''Visual Annotations'') True (lit ''C''),
      Ln 5]"

text \<open>
  The report is the list of calls made on the \<open>FPDF\<close> object when \<open>pdf.output\<close> writes
  it. A failure of \<open>pdf.image\<close> is caught at line 305 and leaves the image out; the other
  exceptions leave the function.
\<close>

definition create_pdf_report :: "env \<Rightarrow> pystr \<Rightarrow> json \<Rightarrow> bytes \<Rightarrow> pystr \<Rightarrow> exn + pdf_op list" where
  "create_pdf_report E url full_data image_bytes output_filename =
     and_then (py_get full_data (lit ''executive_summary'') (JStr (lit ''No summary available.'')))
       (\<lambda>summary.
       case summary of
         JStr s \<Rightarrow>
           and_then (py_get full_data (lit ''annotations'') (JArr [])) (\<lambda>annotations.
           and_then (py_iter annotations) (\<lambda>items.
           and_then (findings_loop E items) (\<lambda>overview.
             (let temp_img_path = lit ''temp_annotated_'' @ str_nat (time_time E) @ lit ''.png'';
                  pages = summary_page url (latin1_replace s) @ overview @ visuals_page
              in case write_file E temp_img_path image_bytes of
                   Some e \<Rightarrow> Inl e
                 | None \<Rightarrow>
                     (let doc = pages @
                            (case pdf_image E temp_img_path image_bytes of
                               None \<Rightarrow> [Put_image image_bytes 10 30 190]
                             | Some e \<Rightarrow> [])
                      in case pdf_output E doc output_filename of
                           Some e \<Rightarrow> Inl e
                         | None \<Rightarrow> Inr doc)))))
       | v \<Rightarrow> Inl (Runtime (AttributeError v (lit ''encode''))))"

subsection \<open>\<open>run\<close>\<close>

text \<open>
  How \<open>run\<close> ends: it returns the path of the report or \<open>None\<close>, or an exception leaves it
  (\<open>task.result()\<close> then returns the value or raises again).
\<close>

datatype outcome = Returned "pystr option" | Raised exn

record run_result =
  trace :: "trace_item list"
  result :: outcome
  report :: "pdf_op list option"

definition output_path :: "env \<Rightarrow> pystr" where
  "output_path E =
     path_join (gettempdir E) (lit ''audit_report_'' @ str_nat (time_time E) @ lit ''.pdf'')"

definition run :: "env \<Rightarrow> pystr \<Rightarrow> run_result" where
  "run E target_url =
     (case get_screenshot E target_url of (tr1, shot) \<Rightarrow>
        (case shot of
           Some image_bytes \<Rightarrow>
             if image_bytes \<noteq> [] then
               (case analyze_and_annotate E image_bytes of (tr2, full_data, annotated_bytes) \<Rightarrow>
                  (let output_filename = output_path E;
                       tr = Log (starting_msg target_url) # tr1 @ tr2 @
                              [Log generating_msg, Call Create_pdf]
                   in case create_pdf_report E target_url full_data annotated_bytes output_filename of
                        Inl e \<Rightarrow> \<lparr>trace = tr, result = Raised e, report = None\<rparr>
                      | Inr doc \<Rightarrow>
                          \<lparr>trace = tr @ [Log (report_generated_msg output_filename)],
                           result = Returned (Some output_filename),
                           report = Some doc\<rparr>))
             else
               \<lparr>trace = Log (starting_msg target_url) # tr1 @ [Log failed_capture_msg],
                result = Returned None, report = None\<rparr>
         | None \<Rightarrow>
             \<lparr>trace = Log (starting_msg target_url) # tr1 @ [Log failed_capture_msg],
              result = Returned None, report = None\<rparr>))"

section \<open>The progress stream of \<open>server.py\<close>\<close>

text \<open>
  \<open>progress_generator\<close> yields server-sent events, each the JSON text of a small dict:
  \<open>{'message': m}\<close>, \<open>{'type': 'complete', 'report_url': u}\<close> or
  \<open>{'type': 'error', 'message': m}\<close>. The wire framing (\<open>data: ...\<close> and two newlines)
  is the same for all three and is left out.
\<close>

datatype event = Message pystr | Complete pystr | Error pystr

text \<open>Lines 68 to 79 of \<open>server.py\<close>: the one event after the loop.\<close>

definition terminal_event :: "(rt_error \<Rightarrow> pystr) \<Rightarrow> outcome \<Rightarrow> event" where
  "terminal_event str_rt t =
     (case t of
        Raised e \<Rightarrow> Error (str_exn str_rt e)
      | Returned None \<Rightarrow> Error (lit ''Analysis failed'')
      | Returned (Some path) \<Rightarrow>
          (if path \<noteq> [] then Complete (lit ''api/download/'' @ basename path)
           else Error (lit ''Analysis failed'')))"

text \<open>
  The loop of lines 47 to 66 runs on one asyncio event loop together with the task of
  \<open>agent.run\<close>. The agent's side is the list of messages it still has to log (each
  \<open>log\<close> is a \<open>queue.put\<close>, which never suspends on an unbounded queue) and then its end.
  The generator's side is one \<open>queue.get()\<close> task per iteration:
  \<^item> \<open>asyncio.Queue\<close> keeps the getters that found the queue empty in a FIFO; a \<open>put\<close>
    hands its item to the oldest of them, otherwise appends it to the queue. The event
    loop runs callbacks in the order they were scheduled, so a getter that was handed an
    item has it by the time \<open>asyncio.wait\<close> returns to the generator.
  \<^item> A getter left pending when \<open>asyncio.wait\<close> returns is never cancelled and never read
    again: it stays in that FIFO, ahead of every later getter (\<open>stale\<close>), and an item
    handed to it is lost.
  \<^item> \<open>cur = None\<close>: the generator is at the top of the loop (also after a \<open>yield\<close>, where
    the agent may run on). \<open>cur = Some g\<close>: it is suspended in \<open>asyncio.wait\<close> on the
    getter \<open>g\<close> of this iteration and on the task.
\<close>

datatype getter = Blocked | Got pystr

record bridge =
  to_emit :: "pystr list"
  finished :: bool
  queue :: "pystr list"
  stale :: nat
  cur :: "getter option"
  out :: "event list"
  stopped :: bool

definition queue_put :: "pystr \<Rightarrow> bridge \<Rightarrow> bridge" where
  "queue_put m s =
     (if 0 < stale s then s\<lparr>stale := stale s - 1\<rparr>
      else if cur s = Some Blocked then s\<lparr>cur := Some (Got m)\<rparr>
      else s\<lparr>queue := queue s @ [m]\<rparr>)"

definition agent_step :: "bridge \<Rightarrow> bridge option" where
  "agent_step s =
     (case to_emit s of
        m # ms \<Rightarrow> Some (queue_put m (s\<lparr>to_emit := ms\<rparr>))
      | [] \<Rightarrow> if finished s then None else Some (s\<lparr>finished := True\<rparr>))"

text \<open>The members of \<open>done\<close> and the \<open>for t in done\<close> loop of lines 56 to 63.\<close>

datatype done_task = The_task | Get_task pystr

fun for_done :: "bool \<Rightarrow> done_task list \<Rightarrow> event list" where
  "for_done queue_empty [] = []"
| "for_done queue_empty (The_task # ts) =
     (if \<not> queue_empty then for_done queue_empty ts else for_done queue_empty ts)"
| "for_done queue_empty (Get_task m # ts) = Message m # for_done queue_empty ts"

definition done_set :: "getter \<Rightarrow> bool \<Rightarrow> done_task list" where
  "done_set g fin =
     (case g of Got m \<Rightarrow> [Get_task m] | Blocked \<Rightarrow> []) @ (if fin then [The_task] else [])"

definition bridge_step :: "(rt_error \<Rightarrow> pystr) \<Rightarrow> outcome \<Rightarrow> bridge \<Rightarrow> bridge option" where
  "bridge_step str_rt t s =
     (if stopped s then None
      else case cur s of
        None \<Rightarrow>
          (if \<not> finished s \<or> queue s \<noteq> [] then
             (case queue s of
                [] \<Rightarrow> Some (s\<lparr>cur := Some Blocked\<rparr>)
              | m # q \<Rightarrow> Some (s\<lparr>cur := Some (Got m), queue := q\<rparr>))
           else Some (s\<lparr>out := out s @ [terminal_event str_rt t], stopped := True\<rparr>))
      | Some g \<Rightarrow>
          (if done_set g (finished s) = [] then None
           else Some (s\<lparr>out := out s @ for_done (queue s = []) (done_set g (finished s)),
                        cur := None,
                        stale := stale s + (if g = Blocked then 1 else 0)\<rparr>)))"

text \<open>
  A schedule says which side runs next. A side that cannot move (the agent is over, the
  generator is suspended with nothing done) leaves the turn to the other one.
\<close>

datatype party = Agent | Generator

definition sched_step :: "(rt_error \<Rightarrow> pystr) \<Rightarrow> outcome \<Rightarrow> party \<Rightarrow> bridge \<Rightarrow> bridge" where
  "sched_step str_rt t p s =
     (let first = (case p of Agent \<Rightarrow> agent_step s | Generator \<Rightarrow> bridge_step str_rt t s);
          second = (case p of Agent \<Rightarrow> bridge_step str_rt t s | Generator \<Rightarrow> agent_step s)
      in case first of Some s' \<Rightarrow> s' | None \<Rightarrow> (case second of Some s' \<Rightarrow> s' | None \<Rightarrow> s))"

fun exec :: "(rt_error \<Rightarrow> pystr) \<Rightarrow> outcome \<Rightarrow> party list \<Rightarrow> bridge \<Rightarrow> bridge" where
  "exec str_rt t [] s = s"
| "exec str_rt t (p # ps) s = exec str_rt t ps (sched_step str_rt t p s)"

definition init :: "pystr list \<Rightarrow> bridge" where
  "init msgs = \<lparr>to_emit = msgs, finished = False, queue = [], stale = 0, cur = None,
                out = [], stopped = False\<rparr>"

definition stream :: "(rt_error \<Rightarrow> pystr) \<Rightarrow> pystr list \<Rightarrow> outcome \<Rightarrow> party list \<Rightarrow> event list" where
  "stream str_rt msgs t sched = out (exec str_rt t sched (init msgs))"

text \<open>
  \<open>progress_generator\<close>: the events a client receives under a schedule, with what the
  pipeline did behind them. When the constructor raises, lines 40 to 42 yield one error
  event and return before any task is created.
\<close>

record served =
  events :: "event list"
  pipeline :: "trace_item list"
  document :: "pdf_op list option"

definition progress_generator :: "env \<Rightarrow> pystr \<Rightarrow> party list \<Rightarrow> served" where
  "progress_generator E url sched =
     (case ProductionAgent_init E of
        Inl e \<Rightarrow> \<lparr>events = [Error (str_exn (str_error E) e)], pipeline = [], document = None\<rparr>
      | Inr agent \<Rightarrow>
          (let r = run E url
           in \<lparr>events = stream (str_error E) (logs (trace r)) (result r) sched,
               pipeline = trace r,
               document = report r\<rparr>))"

section \<open>Vocabulary of the claims\<close>










text \<open>
  The calls of a trace, the progress message a stage starts with, an environment variable
  that \<open>not\<close> finds false (unset or empty), and the two file names \<open>run\<close> and
  \<open>create_pdf_report\<close> build from the clock.
\<close>

fun calls :: "trace_item list \<Rightarrow> call list" where
  "calls [] = []"
| "calls (Log m # tr) = calls tr"
| "calls (Call c # tr) = c # calls tr"


definition missing :: "pystr option \<Rightarrow> bool" where
  "missing v \<longleftrightarrow> v = None \<or> v = Some []"

definition report_name :: "env \<Rightarrow> pystr" where
  "report_name E = lit ''audit_report_'' @ str_nat (time_time E) @ lit ''.pdf''"

definition temp_image_path :: "env \<Rightarrow> pystr" where
  "temp_image_path E = lit ''temp_annotated_'' @ str_nat (time_time E) @ lit ''.png''"

section \<open>An example environment\<close>

text \<open>
  Services that answer: a screenshot of four bytes that decodes to a 100 by 100 RGB
  image, a model answer with three findings (one without a label box, one whose target
  lies below the image), a font whose glyphs are 6 by 11, and a file system that accepts
  every write. The second answer has a label box of three numbers.
\<close>

definition shot :: bytes where
  "shot = [137, 80, 78, 71]"

definition decoded :: image where
  "decoded = \<lparr>img_size = (100, 100), mode = lit ''RGB'', pixels = shot, drawn = []\<rparr>"

definition site :: pystr where
  "site = lit ''https://example.com''"

definition finding :: "rat list \<Rightarrow> rat list \<Rightarrow> string \<Rightarrow> json" where
  "finding box target s =
     JObj [(lit ''text'', JStr (lit s)),
           (lit ''label_pos'', JArr (map JNum box)),
           (lit ''target_pos'', JArr (map JNum target))]"

definition answer :: json where
  "answer =
     JObj [(lit ''executive_summary'', JStr (lit ''Lead with one clear call to action.'')),
           (lit ''annotations'',
            JArr [finding [100, 200, 300, 400] [500, 500] ''FIX'',
                  JObj [(lit ''text'', JStr (lit ''NO BOX''))],
                  finding [100, 200, 300, 400] [1500, 500] ''LOW''])]"


definition example_env :: env where
  "example_env =
     \<lparr>getenv = (\<lambda>k. Some (lit ''key'')),
      FirecrawlApp = (\<lambda>k. None),
      genai_Client = (\<lambda>k. None),
      scrape = (\<lambda>u. Inr (Scrape_dict (Some (lit ''http://shots/1.png'')))),
      requests_get = (\<lambda>u. Inr \<lparr>status_code = 200, content = shot\<rparr>),
      Image_open = (\<lambda>b. Inr \<lparr>img_size = (100, 100), mode = lit ''RGB'', pixels = b, drawn = []\<rparr>),
      generate_content = (\<lambda>i. Inr (Some (lit ''{...}''))),
      json_loads = (\<lambda>s. Inr answer),
      str_upper = (\<lambda>s. s),
      textbbox = (\<lambda>p s. (fst p, snd p, fst p + 6 * of_nat (length s), snd p + 11)),
      save_png = (\<lambda>i. pixels i @ [length (drawn i)]),
      time_time = 1700000000,
      gettempdir = lit ''/tmp'',
      str_value = (\<lambda>v. lit ''None''),
      write_file = (\<lambda>p b. None),
      pdf_image = (\<lambda>p b. None),
      pdf_output = (\<lambda>d p. None),
      str_error = (\<lambda>e. lit ''error'')\<rparr>"

section \<open>Invariant and variant of the loop of \<open>progress_generator\<close>\<close>

text \<open>
  What holds in every state the two sides can reach: until the terminal event, the events
  yielded, the item held by the current getter, the queue and the messages still to log
  make up the agent's messages in order; a getter waits only on an empty queue, and a
  stale getter exists only once the task is over. The variant counts the turns that are
  left at most.
\<close>

definition inflight :: "getter option \<Rightarrow> pystr list" where
  "inflight g = (case g of Some (Got m) \<Rightarrow> [m] | _ \<Rightarrow> [])"

definition bridge_inv :: "(rt_error \<Rightarrow> pystr) \<Rightarrow> pystr list \<Rightarrow> outcome \<Rightarrow> bridge \<Rightarrow> bool" where
  "bridge_inv str_rt msgs t s \<longleftrightarrow>
     (finished s \<longrightarrow> to_emit s = []) \<and>
     (0 < stale s \<longrightarrow> finished s) \<and>
     (cur s = Some Blocked \<longrightarrow> queue s = []) \<and>
     (if stopped s
      then out s = map Message msgs @ [terminal_event str_rt t] \<and> finished s
      else out s @ map Message (inflight (cur s) @ queue s @ to_emit s) = map Message msgs)"

definition variant :: "bridge \<Rightarrow> nat" where
  "variant s =
     (if stopped s then 0
      else 3 * length (to_emit s) + 2 * length (queue s) + (if finished s then 0 else 1) +
           (case cur s of
              None \<Rightarrow> if finished s then 1 else 3
            | Some Blocked \<Rightarrow> 2
            | Some (Got m) \<Rightarrow> if finished s then 2 else 4))"

section \<open>Order of a trace\<close>


section \<open>Lemmas\<close>

subsection \<open>Strings\<close>

lemma lit_eq_iff [simp]: "lit a = lit b \<longleftrightarrow> a = b"
  by (simp add: lit_def inj_map_eq_map inj_on_def)

lemma length_lit [simp]: "length (lit s) = length s"
  by (simp add: lit_def)

lemma unpack_JArr:
  "unpack n (JArr xs) =
     (if length xs = n then Inr xs else Inl (Runtime (ValueError_unpack n (length xs))))"
  by (simp add: unpack_def)

lemma draw_item_numbers:
  assumes "py_get item (lit ''label_pos'') JNull = Inr (JArr [JNum ymin, JNum xmin, JNum ymax, JNum xmax])"
      and "py_get item (lit ''target_pos'') JNull = Inr (JArr [JNum ty, JNum tx])"
      and "py_get item (lit ''text'') (JStr []) = Inr (JStr s)"
  shows "draw_item E W H item =
         Inr (overlay E W H (ymin, xmin, ymax, xmax) (ty, tx) (str_upper E s))"
  using assms by (simp add: draw_item_def py_upper_def unpack_JArr)

subsection \<open>The drawing loop\<close>

lemma scale_in_range:
  fixes c :: rat
  assumes "0 \<le> c" and "c \<le> 1000"
  shows "0 \<le> (c / 1000) * of_nat d \<and> (c / 1000) * of_nat d \<le> of_nat d"
proof
  from assms(1) show "0 \<le> (c / 1000) * of_nat d" by simp
  from assms(2) have "c / 1000 \<le> 1" by simp
  then have "(c / 1000) * of_nat d \<le> 1 * of_nat d"
    by (rule mult_right_mono) simp
  then show "(c / 1000) * of_nat d \<le> of_nat d" by simp
qed


lemma overlay_cmds:
  "\<exists>b0 b1 b2 b3.
     overlay E W H (ymin, xmin, ymax, xmax) (ty, tx) text =
       [Line [((xmin + xmax) / 2000) * of_nat W, ((ymin + ymax) / 2000) * of_nat H,
              (tx / 1000) * of_nat W, (ty / 1000) * of_nat H] (lit ''black'') 6,
        Line [((xmin + xmax) / 2000) * of_nat W, ((ymin + ymax) / 2000) * of_nat H,
              (tx / 1000) * of_nat W, (ty / 1000) * of_nat H] (lit ''#FFD700'') 4,
        Ellipse [(tx / 1000) * of_nat W - 10 - 2, (ty / 1000) * of_nat H - 10 - 2,
                 (tx / 1000) * of_nat W + 10 + 2, (ty / 1000) * of_nat H + 10 + 2] (lit ''black''),
        Ellipse [(tx / 1000) * of_nat W - 10, (ty / 1000) * of_nat H - 10,
                 (tx / 1000) * of_nat W + 10, (ty / 1000) * of_nat H + 10] (lit ''#FFD700''),
        Rectangle [b0 - 5, b1 - 5, b2 + 5, b3 + 5] (lit ''#FFD700'') (lit ''black'') 2,
        Text ((xmin / 1000) * of_nat W, (ymin / 1000) * of_nat H) text (lit ''black'')]"
proof -
  obtain b0 b1 b2 b3
    where "textbbox E ((xmin / 1000) * of_nat W, (ymin / 1000) * of_nat H) text = (b0, b1, b2, b3)"
    by (metis prod_cases4)
  then show ?thesis
    by (simp add: overlay_def Let_def)
qed







subsection \<open>The stream\<close>

lemma bridge_inv_init: "bridge_inv str_rt msgs t (init msgs)"
  by (simp add: bridge_inv_def init_def inflight_def)

lemma agent_step_inv:
  assumes "bridge_inv str_rt msgs t s" and "agent_step s = Some s'"
  shows "bridge_inv str_rt msgs t s' \<and> variant s' < variant s"
proof (cases "to_emit s")
  case Nil
  with assms show ?thesis
    by (auto simp: agent_step_def bridge_inv_def variant_def inflight_def
             split: if_splits option.splits getter.splits)
next
  case (Cons m ms)
  with assms have nf: "\<not> finished s" and st: "stale s = 0" and ns: "\<not> stopped s"
    by (auto simp: bridge_inv_def split: if_splits)
  from assms(2) Cons have s': "s' = queue_put m (s\<lparr>to_emit := ms\<rparr>)"
    by (simp add: agent_step_def)
  show ?thesis
  proof (cases "cur s = Some Blocked")
    case True
    with assms(1) Cons nf st ns show ?thesis
      by (auto simp: s' queue_put_def bridge_inv_def variant_def inflight_def)
  next
    case False
    with assms(1) Cons nf st ns show ?thesis
      by (auto simp: s' queue_put_def bridge_inv_def variant_def inflight_def
               split: option.splits getter.splits)
  qed
qed

lemma bridge_step_inv:
  assumes "bridge_inv str_rt msgs t s" and "bridge_step str_rt t s = Some s'"
  shows "bridge_inv str_rt msgs t s' \<and> variant s' < variant s"
proof -
  from assms(2) have ns: "\<not> stopped s"
    by (auto simp: bridge_step_def split: if_splits)
  show ?thesis
  proof (cases "cur s")
    case None
    show ?thesis
    proof (cases "queue s")
      case Nil
      with None ns assms show ?thesis
        by (auto simp: bridge_step_def bridge_inv_def variant_def inflight_def
                 split: if_splits)
    next
      case (Cons m q)
      with None ns assms show ?thesis
        by (auto simp: bridge_step_def bridge_inv_def variant_def inflight_def
                 split: if_splits)
    qed
  next
    case (Some g)
    show ?thesis
    proof (cases g)
      case Blocked
      with Some ns assms show ?thesis
        by (auto simp: bridge_step_def bridge_inv_def variant_def inflight_def done_set_def
                 split: if_splits)
    next
      case (Got m)
      with Some ns assms show ?thesis
        by (auto simp: bridge_step_def bridge_inv_def variant_def inflight_def done_set_def
                 split: if_splits)
    qed
  qed
qed

lemma no_deadlock:
  assumes "bridge_inv str_rt msgs t s" and "\<not> stopped s"
  shows "agent_step s \<noteq> None \<or> bridge_step str_rt t s \<noteq> None"
  using assms
  by (auto simp: agent_step_def bridge_step_def done_set_def
           split: list.splits option.splits getter.splits if_splits)

lemma stopped_fixed:
  assumes "bridge_inv str_rt msgs t s" and "stopped s"
  shows "sched_step str_rt t p s = s"
  using assms
  by (auto simp: sched_step_def agent_step_def bridge_step_def bridge_inv_def Let_def
           split: party.splits list.splits)

lemma sched_step_inv:
  assumes "bridge_inv str_rt msgs t s"
  shows "bridge_inv str_rt msgs t (sched_step str_rt t p s) \<and>
         (stopped s \<or> variant (sched_step str_rt t p s) < variant s)"
proof (cases "stopped s")
  case True
  with assms show ?thesis by (simp add: stopped_fixed)
next
  case False
  from no_deadlock [OF assms False]
  consider s' where "agent_step s = Some s'" | s' where "bridge_step str_rt t s = Some s'"
    by auto
  then show ?thesis
  proof cases
    case 1
    show ?thesis
    proof (cases "bridge_step str_rt t s")
      case None
      with 1 agent_step_inv [OF assms 1] show ?thesis
        by (cases p) (simp_all add: sched_step_def)
    next
      case (Some s'')
      with 1 agent_step_inv [OF assms 1] bridge_step_inv [OF assms Some] show ?thesis
        by (cases p) (simp_all add: sched_step_def)
    qed
  next
    case 2
    show ?thesis
    proof (cases "agent_step s")
      case None
      with 2 bridge_step_inv [OF assms 2] show ?thesis
        by (cases p) (simp_all add: sched_step_def)
    next
      case (Some s'')
      with 2 bridge_step_inv [OF assms 2] agent_step_inv [OF assms Some] show ?thesis
        by (cases p) (simp_all add: sched_step_def)
    qed
  qed
qed

lemma exec_inv:
  "bridge_inv str_rt msgs t s \<Longrightarrow> bridge_inv str_rt msgs t (exec str_rt t sched s)"
  by (induction sched arbitrary: s) (simp_all add: sched_step_inv)

lemma exec_stops:
  "bridge_inv str_rt msgs t s \<Longrightarrow> variant s \<le> length sched \<Longrightarrow>
   stopped (exec str_rt t sched s)"
proof (induction sched arbitrary: s)
  case Nil
  then show ?case by (simp add: variant_def split: if_splits option.splits getter.splits)
next
  case (Cons p ps)
  let ?s' = "sched_step str_rt t p s"
  from sched_step_inv [OF Cons.prems(1), of p]
  have inv: "bridge_inv str_rt msgs t ?s'" and dec: "stopped s \<or> variant ?s' < variant s"
    by simp_all
  have "variant ?s' \<le> length ps"
  proof (cases "stopped s")
    case True
    with Cons.prems(1) have "?s' = s" by (simp add: stopped_fixed)
    with True show ?thesis by (simp add: variant_def)
  next
    case False
    with dec Cons.prems(2) show ?thesis by simp
  qed
  with Cons.IH [OF inv] show ?case by simp
qed

lemma variant_init: "variant (init msgs) = 3 * length msgs + 4"
  by (simp add: variant_def init_def)

lemma inv_prefix:
  assumes "bridge_inv str_rt msgs t s"
  shows "prefix (out s) (map Message msgs @ [terminal_event str_rt t])"
proof (cases "stopped s")
  case True
  with assms show ?thesis by (simp add: bridge_inv_def)
next
  case False
  with assms have "out s @ map Message (inflight (cur s) @ queue s @ to_emit s) = map Message msgs"
    by (simp add: bridge_inv_def)
  then have "prefix (out s) (map Message msgs)"
    by (metis prefixI)
  then show ?thesis
    by (rule prefix_prefix)
qed

lemma stream_prefix:
  "prefix (stream str_rt msgs t sched) (map Message msgs @ [terminal_event str_rt t])"
  unfolding stream_def by (rule inv_prefix [OF exec_inv [OF bridge_inv_init]])

lemma stream_complete:
  assumes "3 * length msgs + 4 \<le> length sched"
  shows "stream str_rt msgs t sched = map Message msgs @ [terminal_event str_rt t]"
proof -
  let ?s = "exec str_rt t sched (init msgs)"
  have inv: "bridge_inv str_rt msgs t ?s"
    by (rule exec_inv [OF bridge_inv_init])
  have "stopped ?s"
    by (rule exec_stops [OF bridge_inv_init]) (simp add: variant_init assms)
  with inv show ?thesis
    by (simp add: bridge_inv_def stream_def)
qed

subsection \<open>Paths and literals\<close>

lemma lit_Nil_iff [simp]: "lit s = [] \<longleftrightarrow> s = []"
  by (simp add: lit_def)

lemma lit_append [simp]: "lit a @ lit b = lit (a @ b)"
  by (simp add: lit_def)

lemma latin1_replace_lit [simp]: "latin1_replace (lit s) = lit s"
  by (simp add: latin1_replace_def lit_def map_idI)

lemma slash_not_in_str_nat: "47 \<notin> set (str_nat n)"
proof (induction n rule: str_nat.induct)
  case (1 n)
  show ?case
  proof (cases "n < 10")
    case True
    then show ?thesis by (subst str_nat.simps) simp
  next
    case False
    with 1 show ?thesis by (subst str_nat.simps) simp
  qed
qed

lemma basename_after_slash: "47 \<notin> set b \<Longrightarrow> basename (a @ 47 # b) = b"
  by (induction a) auto

lemma basename_no_slash: "47 \<notin> set b \<Longrightarrow> basename b = b"
  by (cases b) auto

lemma basename_path_join:
  assumes "47 \<notin> set b"
  shows "basename (path_join a b) = b"
proof (cases "a = [] \<or> last a = 47")
  case False
  with assms show ?thesis
    by (simp add: path_join_def basename_after_slash)
next
  case True
  show ?thesis
  proof (cases "a = []")
    case True
    with assms show ?thesis by (simp add: path_join_def basename_no_slash)
  next
    case False
    with True obtain a' where a: "a = a' @ [47]"
      by (metis append_butlast_last_id)
    have "basename (a' @ 47 # b) = b"
      using assms by (rule basename_after_slash)
    then show ?thesis
      by (simp add: path_join_def a)
  qed
qed

lemma basename_output_path: "basename (output_path E) = report_name E"
proof -
  have "47 \<notin> set (report_name E)"
    by (simp add: report_name_def slash_not_in_str_nat lit_def)
  then show ?thesis
    by (simp add: output_path_def report_name_def [symmetric] basename_path_join)
qed

lemma output_path_not_empty: "output_path E \<noteq> []"
  by (simp add: output_path_def path_join_def)

subsection \<open>The traces of a run\<close>

lemma get_screenshot_cases:
  "(\<exists>e. snd (get_screenshot_try E url) = Inl e \<and>
        get_screenshot E url =
          ([Log (capturing_msg url), Call Scrape,
            Log (firecrawl_error_msg (str_exn (str_error E) e))], None)) \<or>
   (\<exists>e u. snd (get_screenshot_try E url) = Inl e \<and>
        get_screenshot E url =
          ([Log (capturing_msg url), Call Scrape, Log (url_obtained_msg u), Call Download,
            Log (firecrawl_error_msg (str_exn (str_error E) e))], None)) \<or>
   (\<exists>u b. snd (get_screenshot_try E url) = Inr b \<and>
        get_screenshot E url =
          ([Log (capturing_msg url), Call Scrape, Log (url_obtained_msg u), Call Download],
           Some b))"
  by (auto simp: get_screenshot_def get_screenshot_try_def Let_def
           split: sum.splits scrape_result.splits option.splits if_splits)










lemma run_capture_failed:
  assumes "snd (get_screenshot_try E url) = Inl e"
  shows "\<exists>pre. (pre = [Log (starting_msg url), Log (capturing_msg url), Call Scrape] \<or>
               (\<exists>u. pre = [Log (starting_msg url), Log (capturing_msg url), Call Scrape,
                            Log (url_obtained_msg u), Call Download])) \<and>
          run E url =
            \<lparr>trace = pre @ [Log (firecrawl_error_msg (str_exn (str_error E) e)),
                            Log failed_capture_msg],
             result = Returned None, report = None\<rparr>"
  using assms get_screenshot_cases [of E url]
  by (auto simp: run_def)

lemma analyze_and_annotate_unparsed:
  assumes "Image_open E b = Inr opened"
      and "generate_content E (to_rgb opened) = Inr text"
      and "read_response E text = Inl e"
  shows "analyze_and_annotate E b =
         ([Log analyzing_msg, Call Open_image, Call Generate, Call Parse,
           Log (gemini_error_msg (str_exn (str_error E) e))],
          JObj [], b)"
  by (simp add: analyze_and_annotate_def annotate_try_def assms Let_def)

lemma create_pdf_report_empty:
  assumes "write_file E (temp_image_path E) b = None"
      and "pdf_output E (summary_page url (lit ''No summary available.'') @ visuals_page @
             (case pdf_image E (temp_image_path E) b of
                None \<Rightarrow> [Put_image b 10 30 190] | Some e \<Rightarrow> [])) p = None"
  shows "create_pdf_report E url (JObj []) b p =
         Inr (summary_page url (lit ''No summary available.'') @ visuals_page @
              (case pdf_image E (temp_image_path E) b of
                 None \<Rightarrow> [Put_image b 10 30 190] | Some e \<Rightarrow> []))"
  using assms
  by (simp add: create_pdf_report_def temp_image_path_def [symmetric] Let_def)

subsection \<open>The example environment\<close>

lemma str_nat_examples:
  "str_nat 1700000000 = lit ''1700000000''" "str_nat 404 = lit ''404''"
  by (simp_all add: str_nat.simps lit_def)

lemma example_env_fields:
  "getenv example_env = (\<lambda>k. Some (lit ''key''))"
  "FirecrawlApp example_env = (\<lambda>k. None)"
  "genai_Client example_env = (\<lambda>k. None)"
  "scrape example_env = (\<lambda>u. Inr (Scrape_dict (Some (lit ''http://shots/1.png''))))"
  "requests_get example_env = (\<lambda>u. Inr \<lparr>status_code = 200, content = shot\<rparr>)"
  "Image_open example_env =
     (\<lambda>b. Inr \<lparr>img_size = (100, 100), mode = lit ''RGB'', pixels = b, drawn = []\<rparr>)"
  "generate_content example_env = (\<lambda>i. Inr (Some (lit ''{...}'')))"
  "json_loads example_env = (\<lambda>s. Inr answer)"
  "str_upper example_env = (\<lambda>s. s)"
  "textbbox example_env = (\<lambda>p s. (fst p, snd p, fst p + 6 * of_nat (length s), snd p + 11))"
  "save_png example_env = (\<lambda>i. pixels i @ [length (drawn i)])"
  "time_time example_env = 1700000000"
  "gettempdir example_env = lit ''/tmp''"
  "str_value example_env = (\<lambda>v. lit ''None'')"
  "write_file example_env = (\<lambda>p b. None)"
  "pdf_image example_env = (\<lambda>p b. None)"
  "pdf_output example_env = (\<lambda>d p. None)"
  "str_error example_env = (\<lambda>e. lit ''error'')"
  by (simp_all add: example_env_def)

lemma example_output_path: "output_path example_env = lit ''/tmp/audit_report_1700000000.pdf''"
proof -
  have "str_nat 1700000000 = map of_char ''1700000000''"
    by (simp add: str_nat.simps)
  then show ?thesis
    by (simp add: output_path_def path_join_def example_env_fields lit_def)
qed


section \<open>Claims\<close>

text \<open>
  C1. Whatever the interleaving of the agent and the generator, the events yielded so far
  are an initial part of the agent's messages in emission order followed by the one
  terminal event; nothing is dropped, repeated or yielded after it. Once the schedule is
  long enough for both sides to finish (three turns a message and four more), the stream
  is exactly the messages followed by the terminal event, which is a \<open>complete\<close> or an
  \<open>error\<close> event. The schedules include those where the task ends while its last
  messages are still queued.
\<close>

theorem bridge_delivers_in_order:
  "prefix (stream str_rt msgs t sched) (map Message msgs @ [terminal_event str_rt t]) \<and>
   (3 * length msgs + 4 \<le> length sched \<longrightarrow>
      stream str_rt msgs t sched = map Message msgs @ [terminal_event str_rt t]) \<and>
   (\<forall>m. terminal_event str_rt t \<noteq> Message m)"
proof (intro conjI impI allI)
  show "prefix (stream str_rt msgs t sched) (map Message msgs @ [terminal_event str_rt t])"
    by (rule stream_prefix)
next
  assume "3 * length msgs + 4 \<le> length sched"
  then show "stream str_rt msgs t sched = map Message msgs @ [terminal_event str_rt t]"
    by (rule stream_complete)
next
  fix m
  show "terminal_event str_rt t \<noteq> Message m"
    by (simp add: terminal_event_def split: outcome.splits option.splits)
qed

text \<open>
  Two messages; the agent logs both and ends while the generator still waits on its first
  getter, so the end of the task is there before the second message is read.
\<close>

theorem bridge_delivers_in_order_witness:
  "3 * length [lit ''a'', lit ''b''] + 4 \<le>
     length [Generator, Agent, Agent, Agent, Generator, Generator, Generator, Generator,
             Agent, Agent] \<and>
   stream (\<lambda>e. []) [lit ''a'', lit ''b''] (Returned (Some (lit ''/tmp/r.pdf'')))
     [Generator, Agent, Agent, Agent, Generator, Generator, Generator, Generator,
      Agent, Agent] =
   [Message (lit ''a''), Message (lit ''b''), Complete (lit ''api/download/r.pdf'')]"
  using bridge_delivers_in_order [of "\<lambda>e. []" "[lit ''a'', lit ''b'']"
      "Returned (Some (lit ''/tmp/r.pdf''))"
      "[Generator, Agent, Agent, Agent, Generator, Generator, Generator, Generator,
        Agent, Agent]"]
  by (simp add: terminal_event_def lit_def)

text \<open>
  C5. For a finding whose label box and target point are numbers between 0 and 1000, on an
  image of positive width and height, the renderer anchors the text at
  \<open>((xmin / 1000) * W, (ymin / 1000) * H)\<close> and centres the marker at
  \<open>((tx / 1000) * W, (ty / 1000) * H)\<close>: each pixel coordinate is exactly the normalized one
  divided by 1000 and multiplied by the dimension, and it lies on the canvas. Numbers are
  exact rationals.
\<close>

theorem pixel_mapping:
  assumes "py_get item (lit ''label_pos'') JNull = Inr (JArr [JNum ymin, JNum xmin, JNum ymax, JNum xmax])"
      and "py_get item (lit ''target_pos'') JNull = Inr (JArr [JNum ty, JNum tx])"
      and "py_get item (lit ''text'') (JStr []) = Inr (JStr s)"
      and "0 \<le> xmin \<and> xmin \<le> 1000" and "0 \<le> ymin \<and> ymin \<le> 1000"
      and "0 \<le> tx \<and> tx \<le> 1000" and "0 \<le> ty \<and> ty \<le> 1000"
      and "0 < W" and "0 < H"
  shows "\<exists>cmds. draw_item E W H item = Inr cmds \<and>
           Text ((xmin / 1000) * of_nat W, (ymin / 1000) * of_nat H) (str_upper E s) (lit ''black'')
             \<in> set cmds \<and>
           Ellipse [(tx / 1000) * of_nat W - 10, (ty / 1000) * of_nat H - 10,
                    (tx / 1000) * of_nat W + 10, (ty / 1000) * of_nat H + 10] (lit ''#FFD700'')
             \<in> set cmds \<and>
           0 \<le> (xmin / 1000) * of_nat W \<and> (xmin / 1000) * of_nat W \<le> of_nat W \<and>
           0 \<le> (ymin / 1000) * of_nat H \<and> (ymin / 1000) * of_nat H \<le> of_nat H \<and>
           0 \<le> (tx / 1000) * of_nat W \<and> (tx / 1000) * of_nat W \<le> of_nat W \<and>
           0 \<le> (ty / 1000) * of_nat H \<and> (ty / 1000) * of_nat H \<le> of_nat H"
proof -
  have "draw_item E W H item =
        Inr (overlay E W H (ymin, xmin, ymax, xmax) (ty, tx) (str_upper E s))"
    using assms(1-3) by (rule draw_item_numbers)
  moreover obtain b0 b1 b2 b3 where
    "overlay E W H (ymin, xmin, ymax, xmax) (ty, tx) (str_upper E s) =
       [Line [((xmin + xmax) / 2000) * of_nat W, ((ymin + ymax) / 2000) * of_nat H,
              (tx / 1000) * of_nat W, (ty / 1000) * of_nat H] (lit ''black'') 6,
        Line [((xmin + xmax) / 2000) * of_nat W, ((ymin + ymax) / 2000) * of_nat H,
              (tx / 1000) * of_nat W, (ty / 1000) * of_nat H] (lit ''#FFD700'') 4,
        Ellipse [(tx / 1000) * of_nat W - 10 - 2, (ty / 1000) * of_nat H - 10 - 2,
                 (tx / 1000) * of_nat W + 10 + 2, (ty / 1000) * of_nat H + 10 + 2] (lit ''black''),
        Ellipse [(tx / 1000) * of_nat W - 10, (ty / 1000) * of_nat H - 10,
                 (tx / 1000) * of_nat W + 10, (ty / 1000) * of_nat H + 10] (lit ''#FFD700''),
        Rectangle [b0 - 5, b1 - 5, b2 + 5, b3 + 5] (lit ''#FFD700'') (lit ''black'') 2,
        Text ((xmin / 1000) * of_nat W, (ymin / 1000) * of_nat H) (str_upper E s) (lit ''black'')]"
    using overlay_cmds by blast
  ultimately show ?thesis
    using scale_in_range [of xmin W] scale_in_range [of ymin H]
          scale_in_range [of tx W] scale_in_range [of ty H] assms(4-7)
    by simp
qed


theorem pixel_mapping_witness:
  "py_get (finding [100, 200, 300, 400] [500, 500] ''FIX'') (lit ''label_pos'') JNull =
     Inr (JArr [JNum 100, JNum 200, JNum 300, JNum 400]) \<and>
   py_get (finding [100, 200, 300, 400] [500, 500] ''FIX'') (lit ''target_pos'') JNull =
     Inr (JArr [JNum 500, JNum 500]) \<and>
   py_get (finding [100, 200, 300, 400] [500, 500] ''FIX'') (lit ''text'') (JStr []) =
     Inr (JStr (lit ''FIX'')) \<and>
   (0::rat) \<le> 200 \<and> (200::rat) \<le> 1000 \<and> (0::rat) \<le> 100 \<and> (100::rat) \<le> 1000 \<and>
   (0::rat) \<le> 500 \<and> (500::rat) \<le> 1000 \<and> (0::nat) < 640 \<and> (0::nat) < 480 \<and>
   (\<exists>cmds. draw_item example_env 640 480 (finding [100, 200, 300, 400] [500, 500] ''FIX'') =
             Inr cmds \<and>
           Text (128, 48) (lit ''FIX'') (lit ''black'') \<in> set cmds \<and>
           Ellipse [310, 230, 330, 250] (lit ''#FFD700'') \<in> set cmds)"
proof -
  have g: "py_get (finding [100, 200, 300, 400] [500, 500] ''FIX'') (lit ''label_pos'') JNull =
             Inr (JArr [JNum 100, JNum 200, JNum 300, JNum 400])"
          "py_get (finding [100, 200, 300, 400] [500, 500] ''FIX'') (lit ''target_pos'') JNull =
             Inr (JArr [JNum 500, JNum 500])"
          "py_get (finding [100, 200, 300, 400] [500, 500] ''FIX'') (lit ''text'') (JStr []) =
             Inr (JStr (lit ''FIX''))"
    by (simp_all add: finding_def)
  from pixel_mapping [OF g, of 640 480 example_env] g show ?thesis
    by (simp add: example_env_def)
qed

text \<open>
  C9. The pointer line of a finding starts at the centre of its label box, the midpoint
  of the minimum and the maximum taken on each axis by itself and mapped to pixels:
  \<open>(((xmin + xmax) / 2 / 1000) * W, ((ymin + ymax) / 2 / 1000) * H)\<close>. Both layers of the
  line start there and end at the target.
\<close>

theorem label_centre:
  assumes "py_get item (lit ''label_pos'') JNull = Inr (JArr [JNum ymin, JNum xmin, JNum ymax, JNum xmax])"
      and "py_get item (lit ''target_pos'') JNull = Inr (JArr [JNum ty, JNum tx])"
      and "py_get item (lit ''text'') (JStr []) = Inr (JStr s)"
  shows "\<exists>cmds. draw_item E W H item = Inr cmds \<and>
           Line [((xmin + xmax) / 2 / 1000) * of_nat W, ((ymin + ymax) / 2 / 1000) * of_nat H,
                 (tx / 1000) * of_nat W, (ty / 1000) * of_nat H] (lit ''black'') 6 \<in> set cmds \<and>
           Line [((xmin + xmax) / 2 / 1000) * of_nat W, ((ymin + ymax) / 2 / 1000) * of_nat H,
                 (tx / 1000) * of_nat W, (ty / 1000) * of_nat H] (lit ''#FFD700'') 4 \<in> set cmds"
proof -
  have "draw_item E W H item =
        Inr (overlay E W H (ymin, xmin, ymax, xmax) (ty, tx) (str_upper E s))"
    using assms by (rule draw_item_numbers)
  then show ?thesis
    by (simp add: overlay_def Let_def split: prod.splits)
qed


theorem label_centre_witness:
  "py_get (finding [100, 200, 300, 400] [500, 500] ''FIX'') (lit ''label_pos'') JNull =
     Inr (JArr [JNum 100, JNum 200, JNum 300, JNum 400]) \<and>
   py_get (finding [100, 200, 300, 400] [500, 500] ''FIX'') (lit ''target_pos'') JNull =
     Inr (JArr [JNum 500, JNum 500]) \<and>
   py_get (finding [100, 200, 300, 400] [500, 500] ''FIX'') (lit ''text'') (JStr []) =
     Inr (JStr (lit ''FIX'')) \<and>
   (\<exists>cmds. draw_item example_env 640 480 (finding [100, 200, 300, 400] [500, 500] ''FIX'') =
             Inr cmds \<and>
           Line [192, 96, 320, 240] (lit ''black'') 6 \<in> set cmds \<and>
           Line [192, 96, 320, 240] (lit ''#FFD700'') 4 \<in> set cmds)"
proof -
  have g: "py_get (finding [100, 200, 300, 400] [500, 500] ''FIX'') (lit ''label_pos'') JNull =
             Inr (JArr [JNum 100, JNum 200, JNum 300, JNum 400])"
          "py_get (finding [100, 200, 300, 400] [500, 500] ''FIX'') (lit ''target_pos'') JNull =
             Inr (JArr [JNum 500, JNum 500])"
          "py_get (finding [100, 200, 300, 400] [500, 500] ''FIX'') (lit ''text'') (JStr []) =
             Inr (JStr (lit ''FIX''))"
    by (simp_all add: finding_def)
  from label_centre [OF g, of example_env 640 480] g show ?thesis
    by simp
qed











text \<open>
  C10. When \<open>FIRECRAWL_API_KEY\<close> or \<open>GOOGLE_API_KEY\<close> is unset or empty, the constructor
  raises with the missing-keys message, and \<open>progress_generator\<close> yields exactly one error
  event with that message, under every schedule, with no step of the pipeline taken and
  no report.
\<close>

theorem missing_key_yields_one_error_event:
  assumes "missing (getenv E (lit ''FIRECRAWL_API_KEY'')) \<or>
           missing (getenv E (lit ''GOOGLE_API_KEY''))"
  shows "ProductionAgent_init E = Inl (Exception missing_keys_msg) \<and>
         progress_generator E url sched =
           \<lparr>events = [Error missing_keys_msg], pipeline = [], document = None\<rparr>"
proof -
  from assms have "ProductionAgent_init E = Inl (Exception missing_keys_msg)"
    by (auto simp: ProductionAgent_init_def missing_def split: option.splits)
  then show ?thesis
    by (simp add: progress_generator_def)
qed

theorem missing_key_yields_one_error_event_witness:
  "missing (getenv (example_env\<lparr>getenv := \<lambda>k. if k = lit ''GOOGLE_API_KEY'' then None
                                               else Some (lit ''fc-key'')\<rparr>)
              (lit ''GOOGLE_API_KEY'')) \<and>
   progress_generator
     (example_env\<lparr>getenv := \<lambda>k. if k = lit ''GOOGLE_API_KEY'' then None
                                 else Some (lit ''fc-key'')\<rparr>)
     (lit ''https://example.com'') [Generator, Agent, Generator] =
   \<lparr>events = [Error missing_keys_msg], pipeline = [], document = None\<rparr>"
proof -
  let ?E = "example_env\<lparr>getenv := \<lambda>k. if k = lit ''GOOGLE_API_KEY'' then None
                                        else Some (lit ''fc-key'')\<rparr>"
  have m: "missing (getenv ?E (lit ''GOOGLE_API_KEY''))"
    by (simp add: missing_def)
  then have "missing (getenv ?E (lit ''FIRECRAWL_API_KEY'')) \<or>
             missing (getenv ?E (lit ''GOOGLE_API_KEY''))" ..
  from missing_key_yields_one_error_event [OF this] m show ?thesis by simp
qed

text \<open>
  C3, as stated, fails: when the download of the screenshot answers 404, the reason is
  logged as a progress message, \<open>run\<close> returns \<open>None\<close>, and the one error event carries the
  fixed text \<open>Analysis failed\<close>, which does not contain the reason.
\<close>

theorem capture_reason_is_not_in_the_error_event:
  "events (progress_generator
             (example_env\<lparr>requests_get := \<lambda>u. Inr \<lparr>status_code = 404, content = []\<rparr>\<rparr>)
             site (replicate 19 Agent)) =
     [Message (starting_msg site), Message (capturing_msg site),
      Message (url_obtained_msg (lit ''http://shots/1.png'')),
      Message (firecrawl_error_msg (lit ''Failed to download image. Status: 404'')),
      Message failed_capture_msg,
      Error (lit ''Analysis failed'')] \<and>
   \<not> sublist (lit ''Failed to download image. Status: 404'') (lit ''Analysis failed'')"
proof -
  let ?E = "example_env\<lparr>requests_get := \<lambda>u. Inr \<lparr>status_code = 404, content = []\<rparr>\<rparr>"
  have r: "run ?E site =
        \<lparr>trace = [Log (starting_msg site), Log (capturing_msg site), Call Scrape,
                   Log (url_obtained_msg (lit ''http://shots/1.png'')), Call Download,
                   Log (firecrawl_error_msg (lit ''Failed to download image. Status: 404'')),
                   Log failed_capture_msg],
         result = Returned None, report = None\<rparr>"
    by (simp add: run_def get_screenshot_def get_screenshot_try_def example_env_fields
                  str_nat_examples)
  have i: "ProductionAgent_init ?E = Inr \<lparr>firecrawl_key = lit ''key'', google_key = lit ''key''\<rparr>"
    by (simp add: ProductionAgent_init_def example_env_fields)
  have "events (progress_generator ?E site (replicate 19 Agent)) =
        map Message (logs (trace (run ?E site))) @ [terminal_event (str_error ?E) (result (run ?E site))]"
    by (simp add: progress_generator_def i Let_def stream_complete r)
  moreover have "\<not> sublist (lit ''Failed to download image. Status: 404'') (lit ''Analysis failed'')"
    by (simp add: lit_def sublist_code)
  ultimately show ?thesis
    by (simp add: r terminal_event_def)
qed

text \<open>
  C3, amended. When the body of \<open>get_screenshot\<close> ends in an exception (the scrape raises,
  no screenshot URL comes back, the download raises or answers another status than 200),
  every schedule of at least 19 turns yields: the start and capture messages, a progress
  message with the reason of the failure, the progress message that the capture failed,
  and then exactly one error event, whose text is \<open>Analysis failed\<close>. Only capture work
  was done, and there is no report.
\<close>

theorem capture_failure_ends_the_run:
  assumes "ProductionAgent_init E = Inr a"
      and "snd (get_screenshot_try E url) = Inl e"
      and "19 \<le> length sched"
  shows "\<exists>pre. (pre = [starting_msg url, capturing_msg url] \<or>
               (\<exists>u. pre = [starting_msg url, capturing_msg url, url_obtained_msg u])) \<and>
          events (progress_generator E url sched) =
            map Message pre @
            [Message (firecrawl_error_msg (str_exn (str_error E) e)),
             Message failed_capture_msg,
             Error (lit ''Analysis failed'')] \<and>
          set (map stage_of (calls (pipeline (progress_generator E url sched)))) = {Capture} \<and>
          document (progress_generator E url sched) = None"
proof -
  from run_capture_failed [OF assms(2)] obtain tr
    where tr: "tr = [Log (starting_msg url), Log (capturing_msg url), Call Scrape] \<or>
               (\<exists>u. tr = [Log (starting_msg url), Log (capturing_msg url), Call Scrape,
                            Log (url_obtained_msg u), Call Download])"
      and r: "run E url =
            \<lparr>trace = tr @ [Log (firecrawl_error_msg (str_exn (str_error E) e)),
                           Log failed_capture_msg],
             result = Returned None, report = None\<rparr>"
    by blast
  let ?msgs = "logs (trace (run E url))"
  from tr r have len: "3 * length ?msgs + 4 \<le> 19" by auto
  with assms(3) have "3 * length ?msgs + 4 \<le> length sched" by simp
  then have ev: "events (progress_generator E url sched) =
        map Message ?msgs @ [terminal_event (str_error E) (result (run E url))]"
    by (simp add: progress_generator_def assms(1) Let_def stream_complete)
  have pd: "pipeline (progress_generator E url sched) = trace (run E url)"
           "document (progress_generator E url sched) = report (run E url)"
    by (simp_all add: progress_generator_def assms(1) Let_def)
  from tr show ?thesis
  proof
    assume "tr = [Log (starting_msg url), Log (capturing_msg url), Call Scrape]"
    with r ev pd show ?thesis
      by (intro exI [of _ "[starting_msg url, capturing_msg url]"])
         (simp add: terminal_event_def)
  next
    assume "\<exists>u. tr = [Log (starting_msg url), Log (capturing_msg url), Call Scrape,
                      Log (url_obtained_msg u), Call Download]"
    then obtain u where "tr = [Log (starting_msg url), Log (capturing_msg url), Call Scrape,
                               Log (url_obtained_msg u), Call Download]" ..
    with r ev pd show ?thesis
      by (intro exI [of _ "[starting_msg url, capturing_msg url, url_obtained_msg u]"])
         (auto simp: terminal_event_def)
  qed
qed

theorem capture_failure_ends_the_run_witness:
  "ProductionAgent_init
     (example_env\<lparr>requests_get := \<lambda>u. Inr \<lparr>status_code = 404, content = []\<rparr>\<rparr>) =
     Inr \<lparr>firecrawl_key = lit ''key'', google_key = lit ''key''\<rparr> \<and>
   snd (get_screenshot_try
          (example_env\<lparr>requests_get := \<lambda>u. Inr \<lparr>status_code = 404, content = []\<rparr>\<rparr>) site) =
     Inl (Exception (lit ''Failed to download image. Status: 404'')) \<and>
   19 \<le> length (replicate 7 Generator @ replicate 12 Agent) \<and>
   (\<exists>pre. events (progress_generator
                    (example_env\<lparr>requests_get := \<lambda>u. Inr \<lparr>status_code = 404, content = []\<rparr>\<rparr>)
                    site (replicate 7 Generator @ replicate 12 Agent)) =
            map Message pre @
            [Message (firecrawl_error_msg (lit ''Failed to download image. Status: 404'')),
             Message failed_capture_msg,
             Error (lit ''Analysis failed'')]) \<and>
   document (progress_generator
               (example_env\<lparr>requests_get := \<lambda>u. Inr \<lparr>status_code = 404, content = []\<rparr>\<rparr>)
               site (replicate 7 Generator @ replicate 12 Agent)) = None"
proof -
  let ?E = "example_env\<lparr>requests_get := \<lambda>u. Inr \<lparr>status_code = 404, content = []\<rparr>\<rparr>"
  have i: "ProductionAgent_init ?E = Inr \<lparr>firecrawl_key = lit ''key'', google_key = lit ''key''\<rparr>"
    by (simp add: ProductionAgent_init_def example_env_fields)
  have f: "snd (get_screenshot_try ?E site) =
             Inl (Exception (lit ''Failed to download image. Status: 404''))"
    by (simp add: get_screenshot_try_def example_env_fields str_nat_examples)
  have l: "19 \<le> length (replicate 7 Generator @ replicate 12 Agent)"
    by simp
  from capture_failure_ends_the_run [OF i f l] i f show ?thesis
    by auto
qed

text \<open>
  C4. When the screenshot was captured and the answer of the vision model is malformed
  (lines 169 to 171 raise: \<open>json.loads\<close> rejects the text, or what it parsed is no JSON
  object), and writing the files of the report does not fail, every schedule of at least
  25 turns ends in one \<open>complete\<close> event with the download address of the report. The
  report's summary is the placeholder \<open>No summary available.\<close>, it has no findings, its
  image is the screenshot as captured, and nothing was drawn.
\<close>

theorem malformed_answer_still_yields_a_report:
  assumes "ProductionAgent_init E = Inr a"
      and "get_screenshot E url = (tr1, Some b)" and "b \<noteq> []"
      and "Image_open E b = Inr opened"
      and "generate_content E (to_rgb opened) = Inr text"
      and "read_response E text = Inl e"
      and "\<forall>p bs. write_file E p bs = None"
      and "\<forall>doc p. pdf_output E doc p = None"
      and "25 \<le> length sched"
  shows "events (progress_generator E url sched) =
           map Message (starting_msg url # logs tr1 @
                        [analyzing_msg, gemini_error_msg (str_exn (str_error E) e),
                         generating_msg, report_generated_msg (output_path E)]) @
           [Complete (lit ''api/download/'' @ report_name E)] \<and>
         document (progress_generator E url sched) =
           Some (summary_page url (lit ''No summary available.'') @ visuals_page @
                 (case pdf_image E (temp_image_path E) b of
                    None \<Rightarrow> [Put_image b 10 30 190] | Some e \<Rightarrow> [])) \<and>
         Draw \<notin> set (calls (pipeline (progress_generator E url sched)))"
proof -
  let ?doc = "summary_page url (lit ''No summary available.'') @ visuals_page @
              (case pdf_image E (temp_image_path E) b of
                 None \<Rightarrow> [Put_image b 10 30 190] | Some e \<Rightarrow> [])"
  from assms(2) get_screenshot_cases [of E url] obtain u
    where tr1: "tr1 = [Log (capturing_msg url), Call Scrape, Log (url_obtained_msg u),
                       Call Download]"
    by auto
  have an: "analyze_and_annotate E b =
         ([Log analyzing_msg, Call Open_image, Call Generate, Call Parse,
           Log (gemini_error_msg (str_exn (str_error E) e))],
          JObj [], b)"
    using assms(4-6) by (rule analyze_and_annotate_unparsed)
  have pdf: "create_pdf_report E url (JObj []) b (output_path E) = Inr ?doc"
    using assms(7,8) by (intro create_pdf_report_empty) simp_all
  have r: "run E url =
        \<lparr>trace = Log (starting_msg url) # tr1 @
                   [Log analyzing_msg, Call Open_image, Call Generate, Call Parse,
                    Log (gemini_error_msg (str_exn (str_error E) e)),
                    Log generating_msg, Call Create_pdf,
                    Log (report_generated_msg (output_path E))],
         result = Returned (Some (output_path E)), report = Some ?doc\<rparr>"
    by (simp add: run_def assms(2,3) an pdf Let_def)
  let ?msgs = "logs (trace (run E url))"
  have "3 * length ?msgs + 4 \<le> 25" by (simp add: r tr1)
  with assms(9) have "3 * length ?msgs + 4 \<le> length sched" by simp
  then have ev: "events (progress_generator E url sched) =
        map Message ?msgs @ [terminal_event (str_error E) (result (run E url))]"
    by (simp add: progress_generator_def assms(1) Let_def stream_complete)
  have pd: "pipeline (progress_generator E url sched) = trace (run E url)"
           "document (progress_generator E url sched) = report (run E url)"
    by (simp_all add: progress_generator_def assms(1) Let_def)
  have te: "terminal_event (str_error E) (Returned (Some (output_path E))) =
            Complete (lit ''api/download/'' @ report_name E)"
    by (simp add: terminal_event_def output_path_not_empty basename_output_path)
  show ?thesis
    by (simp add: ev pd r tr1 te)
qed

theorem malformed_answer_still_yields_a_report_witness:
  "ProductionAgent_init
     (example_env\<lparr>json_loads := \<lambda>s. Inl (Exception (lit ''Expecting value''))\<rparr>) =
     Inr \<lparr>firecrawl_key = lit ''key'', google_key = lit ''key''\<rparr> \<and>
   get_screenshot
     (example_env\<lparr>json_loads := \<lambda>s. Inl (Exception (lit ''Expecting value''))\<rparr>) site =
     ([Log (capturing_msg site), Call Scrape, Log (url_obtained_msg (lit ''http://shots/1.png'')),
       Call Download], Some shot) \<and>
   shot \<noteq> [] \<and>
   Image_open
     (example_env\<lparr>json_loads := \<lambda>s. Inl (Exception (lit ''Expecting value''))\<rparr>) shot =
     Inr decoded \<and>
   generate_content
     (example_env\<lparr>json_loads := \<lambda>s. Inl (Exception (lit ''Expecting value''))\<rparr>)
     (to_rgb decoded) = Inr (Some (lit ''{...}'')) \<and>
   read_response
     (example_env\<lparr>json_loads := \<lambda>s. Inl (Exception (lit ''Expecting value''))\<rparr>)
     (Some (lit ''{...}'')) = Inl (Exception (lit ''Expecting value'')) \<and>
   25 \<le> length (replicate 3 Generator @ replicate 22 Agent) \<and>
   events (progress_generator
             (example_env\<lparr>json_loads := \<lambda>s. Inl (Exception (lit ''Expecting value''))\<rparr>)
             site (replicate 3 Generator @ replicate 22 Agent)) =
     [Message (starting_msg site), Message (capturing_msg site),
      Message (url_obtained_msg (lit ''http://shots/1.png'')),
      Message analyzing_msg, Message (gemini_error_msg (lit ''Expecting value'')),
      Message generating_msg,
      Message (report_generated_msg (lit ''/tmp/audit_report_1700000000.pdf'')),
      Complete (lit ''api/download/audit_report_1700000000.pdf'')] \<and>
   document (progress_generator
               (example_env\<lparr>json_loads := \<lambda>s. Inl (Exception (lit ''Expecting value''))\<rparr>)
               site (replicate 3 Generator @ replicate 22 Agent)) =
     Some (summary_page site (lit ''No summary available.'') @ visuals_page @
           [Put_image shot 10 30 190])"
proof -
  let ?E = "example_env\<lparr>json_loads := \<lambda>s. Inl (Exception (lit ''Expecting value''))\<rparr>"
  have i: "ProductionAgent_init ?E = Inr \<lparr>firecrawl_key = lit ''key'', google_key = lit ''key''\<rparr>"
    by (simp add: ProductionAgent_init_def example_env_fields)
  have g: "get_screenshot ?E site =
     ([Log (capturing_msg site), Call Scrape, Log (url_obtained_msg (lit ''http://shots/1.png'')),
       Call Download], Some shot)"
    by (simp add: get_screenshot_def get_screenshot_try_def example_env_fields)
  have s: "shot \<noteq> []" by (simp add: shot_def)
  have o: "Image_open ?E shot = Inr decoded"
    by (simp add: example_env_fields decoded_def)
  have c: "generate_content ?E (to_rgb decoded) = Inr (Some (lit ''{...}''))"
    by (simp add: example_env_fields)
  have j: "read_response ?E (Some (lit ''{...}'')) = Inl (Exception (lit ''Expecting value''))"
    by (simp add: read_response_def py_json_loads_def)
  have w: "\<forall>p bs. write_file ?E p bs = None" "\<forall>doc p. pdf_output ?E doc p = None"
    by (simp_all add: example_env_fields)
  have l: "25 \<le> length (replicate 3 Generator @ replicate 22 Agent)" by simp
  have op: "output_path ?E = lit ''/tmp/audit_report_1700000000.pdf''"
    using example_output_path by (simp add: output_path_def)
  have rn: "report_name ?E = lit ''audit_report_1700000000.pdf''"
    by (simp add: report_name_def example_env_fields str_nat_examples)
  have pi: "pdf_image ?E (temp_image_path ?E) shot = None"
    by (simp add: example_env_fields)
  from malformed_answer_still_yields_a_report [OF i g s o c j w l] i g s o c j l
  show ?thesis
    by (simp add: op rn example_env_fields)
qed

end
